theory Spec2Isabelle
  imports Complex_Main
begin

section \<open>The charge service of foxess\_em\<close>

text \<open>
  A shallow embedding of \<^verbatim>\<open>custom_components/foxess_em/charge/charge_service.py\<close>.
  The class \<^verbatim>\<open>ChargeService\<close> holds its own fields and talks to four collaborators:
  the Home Assistant event helpers (listener registration), the forecast controller, the
  battery controller and the Fox cloud service.  None of the collaborators is part of the
  file; each is represented by what the service hands to it (a log of the calls made) and
  by what it hands back (the \<open>env\<close> record below).
\<close>

subsection \<open>Data\<close>

text \<open>\<^verbatim>\<open>datetime.time\<close>: only the hour and the minute are read by the service.\<close>

record time_of_day =
  hour :: int
  minute :: int

definition valid_time :: "time_of_day \<Rightarrow> bool" where
  "valid_time t \<longleftrightarrow> 0 \<le> hour t \<and> hour t < 24 \<and> 0 \<le> minute t \<and> minute t < 60"

text \<open>The four methods that the service passes to the event helpers as callbacks.\<close>

datatype callback = SetTargetSoc | StartForceCharge | StopAndHoldCharge | StopHold

text \<open>
  What the service asks the event helpers to watch.
  \<open>TimeChange h m s\<close> is \<^verbatim>\<open>async_track_utc_time_change(hass, cb, hour=h, minute=m, second=s, local=True)\<close>;
  \<open>StateChange e f t\<close> is \<^verbatim>\<open>async_track_state_change(hass, e, cb, f, t)\<close>, where \<open>f\<close> is the
  from-state (\<^verbatim>\<open>None\<close> is \<open>None\<close>) and \<open>t\<close> the to-state.
\<close>

datatype trigger =
    TimeChange int int int
  | StateChange string "string option" string

record listener =
  l_trigger :: trigger
  l_action :: callback

text \<open>A cancellation handle is the position of its listener in the registration order.\<close>

type_synonym handle = nat

datatype fox_cmd = Start_force_charge | Stop_force_charge | Set_min_soc real

datatype battery_cmd = Set_boost bool | Set_full bool

datatype error = Forecast_failed | Fox_failed fox_cmd | Track_failed trigger | Cancel_failed handle

datatype outcome = Done | Raised error

text \<open>
  What the collaborators answer during one callback: whether the forecast refresh raises,
  the three readings of the battery controller, which Fox commands raise, which
  registrations the event helpers reject and which cancellation handles raise when they
  are invoked.  Python floats are read as real numbers.
\<close>

record env =
  refresh_raises :: bool
  battery_capacity_remaining :: real
  charge_total :: real
  charge_to_perc :: real
  fox_raises :: "fox_cmd \<Rightarrow> bool"
  track_raises :: "trigger \<Rightarrow> bool"
  cancel_raises :: "handle \<Rightarrow> bool"

text \<open>
  The fields of \<^verbatim>\<open>ChargeService\<close> (the first eight) and the calls its collaborators
  have received so far: the listeners registered, the cancellation handles invoked, those
  among them whose invocation returned, the Fox commands, the battery controller's setters
  and the number of forecast refreshes.
\<close>

record world =
  eco_start_time :: time_of_day
  eco_end_time :: time_of_day
  battery_soc :: string
  original_soc :: int
  unload_listeners :: "handle list"
  cancel_listeners :: "handle list"
  charge_active :: bool
  perc_target :: real
  tracked :: "listener list"
  cancel_calls :: "handle list"
  cancelled :: "handle list"
  fox_calls :: "fox_cmd list"
  battery_calls :: "battery_cmd list"
  refreshes :: nat

subsection \<open>Python's \<^verbatim>\<open>int\<close> and \<^verbatim>\<open>str\<close>\<close>

text \<open>\<^verbatim>\<open>int(x)\<close> on a number drops the fractional part (towards zero).\<close>

definition py_int :: "real \<Rightarrow> int" where
  "py_int x = (if 0 \<le> x then \<lfloor>x\<rfloor> else \<lceil>x\<rceil>)"

definition digit_char :: "nat \<Rightarrow> char" where
  "digit_char d = ''0123456789'' ! d"

fun str_nat :: "nat \<Rightarrow> string" where
  "str_nat n = (if n < 10 then [digit_char n] else str_nat (n div 10) @ [digit_char (n mod 10)])"

declare str_nat.simps [simp del]

definition py_str :: "int \<Rightarrow> string" where
  "py_str i = (if i < 0 then CHR ''-'' # str_nat (nat (- i)) else str_nat (nat i))"

subsection \<open>Collaborator calls\<close>

text \<open>
  Registering a listener: the event helpers either raise or hand back a fresh handle.
\<close>

definition track :: "env \<Rightarrow> listener \<Rightarrow> world \<Rightarrow> handle option \<times> world" where
  "track e l w =
     (if track_raises e (l_trigger l) then (None, w)
      else (Some (length (tracked w)), w\<lparr>tracked := tracked w @ [l]\<rparr>))"

text \<open>A Fox command is logged when it is issued, whether or not it then raises.\<close>

definition fox_call :: "env \<Rightarrow> fox_cmd \<Rightarrow> world \<Rightarrow> outcome \<times> world" where
  "fox_call e c w =
     (if fox_raises e c then (Raised (Fox_failed c), w\<lparr>fox_calls := fox_calls w @ [c]\<rparr>)
      else (Done, w\<lparr>fox_calls := fox_calls w @ [c]\<rparr>))"

definition battery_call :: "battery_cmd \<Rightarrow> world \<Rightarrow> world" where
  "battery_call c w = w\<lparr>battery_calls := battery_calls w @ [c]\<rparr>"

text \<open>
  Invoking a cancellation handle: the call is logged; it either raises or returns, and a
  listener counts as cancelled once an invocation of its handle has returned.
\<close>

definition cancel :: "env \<Rightarrow> handle \<Rightarrow> world \<Rightarrow> outcome \<times> world" where
  "cancel e h w =
     (if cancel_raises e h then (Raised (Cancel_failed h), w\<lparr>cancel_calls := cancel_calls w @ [h]\<rparr>)
      else (Done, w\<lparr>cancel_calls := cancel_calls w @ [h], cancelled := cancelled w @ [h]\<rparr>))"

text \<open>
  \<^verbatim>\<open>for listener in listeners: listener()\<close>: the handles are invoked in order; the first
  one that raises ends the loop.
\<close>

fun cancel_each :: "env \<Rightarrow> handle list \<Rightarrow> world \<Rightarrow> outcome \<times> world" where
  "cancel_each e [] w = (Done, w)"
| "cancel_each e (h # hs) w =
     (case cancel e h w of
        (Raised x, w') \<Rightarrow> (Raised x, w')
      | (Done, w') \<Rightarrow> cancel_each e hs w')"

definition live :: "world \<Rightarrow> handle \<Rightarrow> bool" where
  "live w h \<longleftrightarrow> h < length (tracked w) \<and> h \<notin> set (cancelled w)"

subsection \<open>The service\<close>

text \<open>
  Modelled from the spec: \<^verbatim>\<open>UnloadController.__init__\<close> (in \<^verbatim>\<open>common/unload_controller.py\<close>,
  which is not among the sources).  The specification counts exactly the two lifetime
  triggers right after construction, so the base class starts \<^verbatim>\<open>_unload_listeners\<close> as the
  empty list.
\<close>

definition unload_controller_init :: "handle list" where
  "unload_controller_init = []"

text \<open>\<^verbatim>\<open>__init__\<close>: the fields are set, then the two daily triggers are registered.\<close>

definition fresh :: "time_of_day \<Rightarrow> time_of_day \<Rightarrow> string \<Rightarrow> int \<Rightarrow> world" where
  "fresh es ee soc orig =
     \<lparr>eco_start_time = es, eco_end_time = ee, battery_soc = soc, original_soc = orig,
      unload_listeners = unload_controller_init, cancel_listeners = [],
      charge_active = False, perc_target = 0,
      tracked = [], cancel_calls = [], cancelled = [], fox_calls = [], battery_calls = [],
      refreshes = 0\<rparr>"

definition eco_start_listener :: "world \<Rightarrow> listener" where
  "eco_start_listener w =
     \<lparr>l_trigger = TimeChange (hour (eco_start_time w)) (minute (eco_start_time w) - 5) 0,
      l_action = SetTargetSoc\<rparr>"

definition eco_end_listener :: "world \<Rightarrow> listener" where
  "eco_end_listener w =
     \<lparr>l_trigger = TimeChange (hour (eco_end_time w)) (minute (eco_end_time w)) 0,
      l_action = StopHold\<rparr>"

definition init :: "env \<Rightarrow> time_of_day \<Rightarrow> time_of_day \<Rightarrow> string \<Rightarrow> int \<Rightarrow> outcome \<times> world" where
  "init e es ee soc orig =
     (let w0 = fresh es ee soc orig in
      case track e (eco_start_listener w0) w0 of
        (None, w1) \<Rightarrow> (Raised (Track_failed (l_trigger (eco_start_listener w0))), w1)
      | (Some eco_start, w1) \<Rightarrow>
          (let w2 = w1\<lparr>unload_listeners := unload_listeners w1 @ [eco_start]\<rparr> in
           case track e (eco_end_listener w2) w2 of
             (None, w3) \<Rightarrow> (Raised (Track_failed (l_trigger (eco_end_listener w2))), w3)
           | (Some eco_end, w3) \<Rightarrow>
               (Done, w3\<lparr>unload_listeners := unload_listeners w3 @ [eco_end]\<rparr>)))"

text \<open>\<^verbatim>\<open>_set_target_soc\<close>.\<close>

definition start_charge_listener :: "world \<Rightarrow> listener" where
  "start_charge_listener w =
     \<lparr>l_trigger = TimeChange (hour (eco_start_time w)) (minute (eco_start_time w)) 0,
      l_action = StartForceCharge\<rparr>"

definition track_charge_listener :: "world \<Rightarrow> listener" where
  "track_charge_listener w =
     \<lparr>l_trigger = StateChange (battery_soc w) None (py_str (py_int (perc_target w))),
      l_action = StopAndHoldCharge\<rparr>"

definition keep_both :: "handle \<Rightarrow> world \<Rightarrow> world" where
  "keep_both h w =
     w\<lparr>cancel_listeners := cancel_listeners w @ [h], unload_listeners := unload_listeners w @ [h]\<rparr>"

definition arm_track_charge :: "env \<Rightarrow> world \<Rightarrow> outcome \<times> world" where
  "arm_track_charge e w =
     (case track e (track_charge_listener w) w of
        (None, w') \<Rightarrow> (Raised (Track_failed (l_trigger (track_charge_listener w))), w')
      | (Some track_charge, w') \<Rightarrow> (Done, keep_both track_charge w'))"

definition set_target_soc :: "env \<Rightarrow> world \<Rightarrow> outcome \<times> world" where
  "set_target_soc e w =
     (if refresh_raises e then (Raised Forecast_failed, w\<lparr>refreshes := Suc (refreshes w)\<rparr>)
      else
        (let w1 = w\<lparr>refreshes := Suc (refreshes w)\<rparr>;
             current_capacity = battery_capacity_remaining e;
             target_capacity = charge_total e;
             w2 = w1\<lparr>perc_target := charge_to_perc e\<rparr>
         in if target_capacity > current_capacity then
              (case track e (start_charge_listener w2) w2 of
                 (None, w3) \<Rightarrow> (Raised (Track_failed (l_trigger (start_charge_listener w2))), w3)
               | (Some start_charge, w3) \<Rightarrow> arm_track_charge e (keep_both start_charge w3))
            else arm_track_charge e w2))"

text \<open>\<^verbatim>\<open>_start_force_charge\<close>: the flag is set before the command is awaited.\<close>

definition start_force_charge :: "env \<Rightarrow> world \<Rightarrow> outcome \<times> world" where
  "start_force_charge e w = fox_call e Start_force_charge (w\<lparr>charge_active := True\<rparr>)"

text \<open>\<^verbatim>\<open>_stop_and_hold_charge\<close>: the flag is cleared before the stop command is awaited.\<close>

definition hold_charge :: "env \<Rightarrow> world \<Rightarrow> outcome \<times> world" where
  "hold_charge e w =
     (case fox_call e (Set_min_soc (perc_target w)) w of
        (Raised x, w') \<Rightarrow> (Raised x, w')
      | (Done, w') \<Rightarrow> (Done, battery_call (Set_full False) (battery_call (Set_boost False) w')))"

definition stop_and_hold_charge :: "env \<Rightarrow> world \<Rightarrow> outcome \<times> world" where
  "stop_and_hold_charge e w =
     (if charge_active w then
        (case fox_call e Stop_force_charge (w\<lparr>charge_active := False\<rparr>) of
           (Raised x, w') \<Rightarrow> (Raised x, w')
         | (Done, w') \<Rightarrow> hold_charge e w')
      else hold_charge e w)"

text \<open>
  \<^verbatim>\<open>_stop_hold\<close>: the handles of \<^verbatim>\<open>_cancel_listeners\<close> are invoked, in order and
  unguarded, then the original minimum SoC is restored.  The list itself is left as it is.
\<close>

definition stop_hold :: "env \<Rightarrow> world \<Rightarrow> outcome \<times> world" where
  "stop_hold e w =
     (case cancel_each e (cancel_listeners w) w of
        (Raised x, w') \<Rightarrow> (Raised x, w')
      | (Done, w') \<Rightarrow> fox_call e (Set_min_soc (of_int (original_soc w * 100))) w')"

text \<open>
  Modelled from the spec: \<^verbatim>\<open>UnloadController.unload\<close> (in \<^verbatim>\<open>common/unload_controller.py\<close>,
  which is not among the sources).  The specification's teardown "cancels all lifetime and
  any still-live cycle listeners"; the controller only has \<^verbatim>\<open>_unload_listeners\<close> to go
  by, so it invokes the handles of that list, with the same loop as \<^verbatim>\<open>_stop_hold\<close>.
\<close>

definition unload :: "env \<Rightarrow> world \<Rightarrow> outcome \<times> world" where
  "unload e w = cancel_each e (unload_listeners w) w"

subsection \<open>Events\<close>

text \<open>
  The event loop invokes the callback of one live listener at a time, or tears the
  service down.  An exception raised by a callback ends that callback; the fields it had
  already written stay written.
\<close>

definition run_callback :: "callback \<Rightarrow> env \<Rightarrow> world \<Rightarrow> outcome \<times> world" where
  "run_callback c e w =
     (case c of
        SetTargetSoc \<Rightarrow> set_target_soc e w
      | StartForceCharge \<Rightarrow> start_force_charge e w
      | StopAndHoldCharge \<Rightarrow> stop_and_hold_charge e w
      | StopHold \<Rightarrow> stop_hold e w)"

datatype event = Fire handle env | Unload env

fun step :: "event \<Rightarrow> world \<Rightarrow> world" where
  "step (Fire h e) w = (if live w h then snd (run_callback (l_action (tracked w ! h)) e w) else w)"
| "step (Unload e) w = snd (unload e w)"

definition exec :: "event list \<Rightarrow> world \<Rightarrow> world" where
  "exec evs w = fold step evs w"

subsection \<open>Observations on a run\<close>

















text \<open>
  The wall-clock time five minutes before a time of day, as the specification words the
  moment of the pre-window trigger.
\<close>

definition five_minutes_before :: "time_of_day \<Rightarrow> time_of_day" where
  "five_minutes_before t =
     \<lparr>hour = ((60 * hour t + minute t - 5) mod 1440) div 60,
      minute = (60 * hour t + minute t - 5) mod 60\<rparr>"

subsection \<open>Example inputs\<close>

text \<open>Collaborators that never raise, with the given battery readings.\<close>

definition calm :: "real \<Rightarrow> real \<Rightarrow> real \<Rightarrow> env" where
  "calm remaining needed perc =
     \<lparr>refresh_raises = False, battery_capacity_remaining = remaining, charge_total = needed,
      charge_to_perc = perc, fox_raises = (\<lambda>c. False), track_raises = (\<lambda>t. False),
      cancel_raises = (\<lambda>h. False)\<rparr>"

text \<open>The same, except that the stop command of the Fox service raises.\<close>

definition stop_fails :: env where
  "stop_fails = (calm 4 10 80)\<lparr>fox_raises := (\<lambda>c. c = Stop_force_charge)\<rparr>"

text \<open>
  The service of the specification's end-to-end scenario, just constructed: eco window
  02:00 to 05:00, original minimum SoC 20.
\<close>

definition day_start :: world where
  "day_start =
     snd (init (calm 4 10 80) \<lparr>hour = 2, minute = 0\<rparr> \<lparr>hour = 5, minute = 0\<rparr> ''sensor.soc'' 20)"

text \<open>
  The same service with the eco window 02:30 to 05:00, whose pre-window trigger is at
  02:25.
\<close>

definition half_past :: world where
  "half_past =
     snd (init (calm 4 10 80) \<lparr>hour = 2, minute = 30\<rparr> \<lparr>hour = 5, minute = 0\<rparr> ''sensor.soc'' 20)"


text \<open>The forecast refresh raises.\<close>

definition no_forecast :: env where
  "no_forecast = (calm 4 10 80)\<lparr>refresh_raises := True\<rparr>"

section \<open>Properties\<close>

subsection \<open>Auxiliary facts\<close>





lemmas service_defs = init_def fresh_def unload_controller_init_def track_def
  eco_start_listener_def eco_end_listener_def
  set_target_soc_def arm_track_charge_def keep_both_def start_charge_listener_def
  track_charge_listener_def start_force_charge_def stop_and_hold_charge_def hold_charge_def
  fox_call_def battery_call_def stop_hold_def unload_def cancel_def run_callback_def live_def
  exec_def Let_def

lemmas eval_defs = service_defs calm_def py_str_def py_int_def str_nat.simps digit_char_def


subsection \<open>Construction\<close>

text \<open>
  Claim C7.  Whenever construction completes, exactly two listeners are registered, the
  daily trigger calling \<^verbatim>\<open>_set_target_soc\<close> and the daily trigger at the end of the eco
  window calling \<^verbatim>\<open>_stop_hold\<close>; both handles are unload listeners, the list of cycle
  listeners is empty, the charge flag is off, and neither a Fox command nor a cancellation
  has been issued.
\<close>

theorem init_two_lifetime_triggers:
  assumes "fst (init e es ee soc orig) = Done"
  shows "tracked (snd (init e es ee soc orig)) =
           [\<lparr>l_trigger = TimeChange (hour es) (minute es - 5) 0, l_action = SetTargetSoc\<rparr>,
            \<lparr>l_trigger = TimeChange (hour ee) (minute ee) 0, l_action = StopHold\<rparr>]
       \<and> unload_listeners (snd (init e es ee soc orig)) = [0, 1]
       \<and> cancel_listeners (snd (init e es ee soc orig)) = []
       \<and> \<not> charge_active (snd (init e es ee soc orig))
       \<and> fox_calls (snd (init e es ee soc orig)) = []
       \<and> cancel_calls (snd (init e es ee soc orig)) = []"
  using assms by (simp add: service_defs split: if_splits)

theorem init_two_lifetime_triggers_witness:
  "fst (init (calm 4 10 80) \<lparr>hour = 2, minute = 0\<rparr> \<lparr>hour = 5, minute = 0\<rparr> ''sensor.soc'' 20) = Done
   \<and> unload_listeners
       (snd (init (calm 4 10 80) \<lparr>hour = 2, minute = 0\<rparr> \<lparr>hour = 5, minute = 0\<rparr> ''sensor.soc'' 20))
     = [0, 1]"
  using init_two_lifetime_triggers
    [of "calm 4 10 80" "\<lparr>hour = 2, minute = 0\<rparr>" "\<lparr>hour = 5, minute = 0\<rparr>" "''sensor.soc''" 20]
  by (simp add: eval_defs)

text \<open>Construction completes whenever the event helpers accept the two time patterns.\<close>

lemma init_completes:
  assumes "\<not> track_raises e (TimeChange (hour es) (minute es - 5) 0)"
    and "\<not> track_raises e (TimeChange (hour ee) (minute ee) 0)"
  shows "fst (init e es ee soc orig) = Done"
  using assms by (simp add: service_defs)

text \<open>
  Claim C3.  The pre-window trigger is asked for at the hour of the eco start and at its
  minute minus five.  For the eco start 02:00 of the specification's own scenario this is
  hour 2, minute -5, which is no time of day, whereas five minutes before 02:00 is 01:55.
\<close>

theorem pre_window_trigger_at_0200:
  "map l_trigger
     (tracked (snd (init (calm 4 10 80) \<lparr>hour = 2, minute = 0\<rparr> \<lparr>hour = 5, minute = 0\<rparr> ''sensor.soc'' 20)))
     = [TimeChange 2 (- 5) 0, TimeChange 5 0 0]
   \<and> five_minutes_before \<lparr>hour = 2, minute = 0\<rparr> = \<lparr>hour = 1, minute = 55\<rparr>"
  by (simp add: eval_defs five_minutes_before_def)

text \<open>
  From minute 5 on, the pattern asked for is the time of day five minutes before the eco
  start.
\<close>

lemma pre_window_trigger_from_minute_5:
  assumes "valid_time es" and "5 \<le> minute es" and "fst (init e es ee soc orig) = Done"
  shows "l_trigger (tracked (snd (init e es ee soc orig)) ! 0) =
           TimeChange (hour (five_minutes_before es)) (minute (five_minutes_before es)) 0"
proof -
  have m: "0 \<le> minute es - 5" "minute es - 5 < 60" and h: "0 \<le> hour es" "hour es < 24"
    using assms by (simp_all add: valid_time_def)
  have eq: "60 * hour es + minute es - 5 = 60 * hour es + (minute es - 5)" by simp
  have d: "(60 * hour es + minute es - 5) div 60 = hour es"
    unfolding eq using m by simp
  have r: "(60 * hour es + minute es - 5) mod 60 = minute es - 5"
    unfolding eq using m by simp
  have big: "(60 * hour es + minute es - 5) mod 1440 = 60 * hour es + minute es - 5"
    using m h by simp
  show ?thesis
    using assms(3) by (simp add: service_defs five_minutes_before_def big d r split: if_splits)
qed

subsection \<open>Arming a cycle\<close>

text \<open>
  Claim C4.  A run of \<^verbatim>\<open>_set_target_soc\<close> that completes has refreshed the forecast once
  and has registered, before the SoC watcher, a trigger at the eco start calling
  \<^verbatim>\<open>_start_force_charge\<close> exactly when the charge needed is strictly greater than the
  capacity remaining; otherwise no listener of this run calls \<^verbatim>\<open>_start_force_charge\<close>.
\<close>

theorem start_trigger_iff_charge_needed:
  assumes "fst (set_target_soc e w) = Done"
  shows "tracked (snd (set_target_soc e w)) =
           tracked w
           @ (if charge_total e > battery_capacity_remaining e
              then [\<lparr>l_trigger = TimeChange (hour (eco_start_time w)) (minute (eco_start_time w)) 0,
                     l_action = StartForceCharge\<rparr>] else [])
           @ [track_charge_listener (w\<lparr>perc_target := charge_to_perc e\<rparr>)]
       \<and> (StartForceCharge \<in> l_action ` set (drop (length (tracked w)) (tracked (snd (set_target_soc e w))))
            \<longleftrightarrow> charge_total e > battery_capacity_remaining e)
       \<and> refreshes (snd (set_target_soc e w)) = Suc (refreshes w)"
  using assms
  by (simp add: set_target_soc_def arm_track_charge_def keep_both_def track_def
      start_charge_listener_def track_charge_listener_def Let_def split: if_splits)

theorem start_trigger_iff_charge_needed_witness:
  "fst (set_target_soc (calm 5 8 80) day_start) = Done
   \<and> StartForceCharge \<in> l_action ` set (drop (length (tracked day_start))
        (tracked (snd (set_target_soc (calm 5 8 80) day_start))))
   \<and> (8 :: real) > 5"
  using start_trigger_iff_charge_needed [of "calm 5 8 80" day_start]
  by (simp add: eval_defs day_start_def)

text \<open>Truncation against rounding, away from the ties.\<close>

lemma py_int_below_half:
  assumes "0 \<le> x" and "frac x < 1 / 2"
  shows "py_int x = round x"
proof -
  have "\<lfloor>x + 1 / 2\<rfloor> = \<lfloor>x\<rfloor>"
    using assms(2) by (intro floor_unique) (simp_all add: frac_def, linarith+)
  then show ?thesis using assms(1) by (simp add: py_int_def round_def)
qed

lemma py_int_above_half:
  assumes "0 \<le> x" and "frac x > 1 / 2"
  shows "py_int x = round x - 1"
proof -
  have "\<lfloor>x + 1 / 2\<rfloor> = \<lfloor>x\<rfloor> + 1"
    using assms(2) by (intro floor_unique) (simp_all add: frac_def, linarith+)
  then show ?thesis using assms(1) by (simp add: py_int_def round_def)
qed

text \<open>
  Claim C2, as the code has it.  A run of \<^verbatim>\<open>_set_target_soc\<close> that completes registers
  exactly one listener calling \<^verbatim>\<open>_stop_and_hold_charge\<close>, whatever the charge decision:
  a state-change watch on the configured sensor, from any state, to the state written
  \<^verbatim>\<open>str(int(perc_target))\<close>, the target with its fractional part dropped.  For a target
  that is not negative this is the nearest integer when the fractional part is below one
  half, and one less than the nearest integer when it is above one half.
\<close>

theorem soc_watcher_on_truncated_target:
  assumes "fst (set_target_soc e w) = Done"
  shows "filter (\<lambda>l. l_action l = StopAndHoldCharge)
           (drop (length (tracked w)) (tracked (snd (set_target_soc e w)))) =
           [\<lparr>l_trigger = StateChange (battery_soc w) None (py_str (py_int (charge_to_perc e))),
             l_action = StopAndHoldCharge\<rparr>]
       \<and> (0 \<le> charge_to_perc e \<and> frac (charge_to_perc e) < 1 / 2 \<longrightarrow>
            py_int (charge_to_perc e) = round (charge_to_perc e))
       \<and> (0 \<le> charge_to_perc e \<and> frac (charge_to_perc e) > 1 / 2 \<longrightarrow>
            py_int (charge_to_perc e) = round (charge_to_perc e) - 1)"
proof -
  have "filter (\<lambda>l. l_action l = StopAndHoldCharge)
           (drop (length (tracked w)) (tracked (snd (set_target_soc e w)))) =
           [\<lparr>l_trigger = StateChange (battery_soc w) None (py_str (py_int (charge_to_perc e))),
             l_action = StopAndHoldCharge\<rparr>]"
    using assms
    by (simp add: set_target_soc_def arm_track_charge_def keep_both_def track_def
        start_charge_listener_def track_charge_listener_def Let_def split: if_splits)
  then show ?thesis
    using py_int_below_half [of "charge_to_perc e"] py_int_above_half [of "charge_to_perc e"]
    by simp
qed

theorem soc_watcher_on_truncated_target_witness:
  "fst (set_target_soc (calm 4 10 (397 / 5)) half_past) = Done
   \<and> filter (\<lambda>l. l_action l = StopAndHoldCharge)
       (drop (length (tracked half_past))
         (tracked (snd (set_target_soc (calm 4 10 (397 / 5)) half_past)))) =
       [\<lparr>l_trigger = StateChange ''sensor.soc'' None ''79'', l_action = StopAndHoldCharge\<rparr>]
   \<and> (0 :: real) \<le> 397 / 5 \<and> frac (397 / 5 :: real) < 1 / 2
   \<and> py_int (397 / 5) = round (397 / 5 :: real)"
  using soc_watcher_on_truncated_target [of "calm 4 10 (397 / 5)" half_past]
  by (simp add: eval_defs half_past_def frac_def)

text \<open>
  Claim C2, as stated, fails twice over: with a target of 79.6 the watcher waits for the
  state \<^verbatim>\<open>79\<close>, while the nearest integer is 80; and when the forecast refresh raises,
  the run registers no watcher at all.
\<close>

theorem soc_watcher_rounding_counterexample:
  "tracked (snd (set_target_soc (calm 4 10 (398 / 5)) half_past)) ! 3 =
     \<lparr>l_trigger = StateChange ''sensor.soc'' None ''79'', l_action = StopAndHoldCharge\<rparr>
   \<and> py_str (round (398 / 5 :: real)) = ''80''
   \<and> fst (set_target_soc no_forecast half_past) = Raised Forecast_failed
   \<and> tracked (snd (set_target_soc no_forecast half_past)) = tracked half_past"
  by (simp add: eval_defs half_past_def no_forecast_def round_def)


subsection \<open>Stopping and holding\<close>

text \<open>
  Claim C5.  When the Fox service does not raise, \<^verbatim>\<open>_stop_and_hold_charge\<close> completes;
  it issues one stop command if the charge flag was on and none if it was off, then one
  \<^verbatim>\<open>set_min_soc\<close> with the target; the charge flag is off afterwards and the battery
  controller has been told to clear boost and full.  A second run right after the first
  completes as well and issues only the \<^verbatim>\<open>set_min_soc\<close>, no second stop command.
\<close>

theorem stop_and_hold_charge_commands:
  assumes "\<forall>c. \<not> fox_raises e c" and "\<forall>c. \<not> fox_raises e' c"
  shows "fst (stop_and_hold_charge e w) = Done
       \<and> fox_calls (snd (stop_and_hold_charge e w)) =
           fox_calls w @ (if charge_active w then [Stop_force_charge] else [])
             @ [Set_min_soc (perc_target w)]
       \<and> \<not> charge_active (snd (stop_and_hold_charge e w))
       \<and> battery_calls (snd (stop_and_hold_charge e w)) =
           battery_calls w @ [Set_boost False, Set_full False]
       \<and> fst (stop_and_hold_charge e' (snd (stop_and_hold_charge e w))) = Done
       \<and> fox_calls (snd (stop_and_hold_charge e' (snd (stop_and_hold_charge e w)))) =
           fox_calls (snd (stop_and_hold_charge e w)) @ [Set_min_soc (perc_target w)]
       \<and> \<not> charge_active (snd (stop_and_hold_charge e' (snd (stop_and_hold_charge e w))))"
  using assms
  by (simp add: stop_and_hold_charge_def hold_charge_def fox_call_def battery_call_def)

theorem stop_and_hold_charge_commands_witness:
  "(\<forall>c. \<not> fox_raises (calm 4 10 80) c)
   \<and> fox_calls (snd (stop_and_hold_charge (calm 4 10 80) (day_start\<lparr>charge_active := True, perc_target := 80\<rparr>)))
       = [Stop_force_charge, Set_min_soc 80]
   \<and> fox_calls (snd (stop_and_hold_charge (calm 4 10 80)
        (snd (stop_and_hold_charge (calm 4 10 80) (day_start\<lparr>charge_active := True, perc_target := 80\<rparr>)))))
       = [Stop_force_charge, Set_min_soc 80, Set_min_soc 80]"
  using stop_and_hold_charge_commands
    [of "calm 4 10 80" "calm 4 10 80" "day_start\<lparr>charge_active := True, perc_target := 80\<rparr>"]
  by (simp add: eval_defs day_start_def)

text \<open>
  Claim C6, as the code has it.  When the stop command raises during
  \<^verbatim>\<open>_stop_and_hold_charge\<close> with the charge flag on, the exception leaves the callback:
  no \<^verbatim>\<open>set_min_soc\<close> follows and the battery controller is not touched.  The charge flag
  is already off, because it is cleared before the command is awaited.
\<close>

theorem stop_failure_leaves_flag_cleared:
  assumes "charge_active w" and "fox_raises e Stop_force_charge"
  shows "stop_and_hold_charge e w =
           (Raised (Fox_failed Stop_force_charge),
            w\<lparr>charge_active := False, fox_calls := fox_calls w @ [Stop_force_charge]\<rparr>)"
  using assms by (simp add: stop_and_hold_charge_def fox_call_def)

theorem stop_failure_leaves_flag_cleared_witness:
  "charge_active (day_start\<lparr>charge_active := True\<rparr>) \<and> fox_raises stop_fails Stop_force_charge
   \<and> fst (stop_and_hold_charge stop_fails (day_start\<lparr>charge_active := True\<rparr>))
       = Raised (Fox_failed Stop_force_charge)
   \<and> fox_calls (snd (stop_and_hold_charge stop_fails (day_start\<lparr>charge_active := True\<rparr>)))
       = [Stop_force_charge]"
  using stop_failure_leaves_flag_cleared [of "day_start\<lparr>charge_active := True\<rparr>" stop_fails]
  by (simp add: eval_defs day_start_def stop_fails_def)

text \<open>
  Claim C6, as stated, fails: after the failed stop command the charge flag is off, not
  still on.
\<close>

theorem stop_failure_counterexample:
  "charge_active (snd (start_force_charge (calm 4 10 80) day_start))
   \<and> fst (stop_and_hold_charge stop_fails (snd (start_force_charge (calm 4 10 80) day_start)))
       = Raised (Fox_failed Stop_force_charge)
   \<and> \<not> charge_active
         (snd (stop_and_hold_charge stop_fails (snd (start_force_charge (calm 4 10 80) day_start))))"
  by (simp add: eval_defs day_start_def stop_fails_def)

subsection \<open>Releasing the hold\<close>




text \<open>
  Claim C1.  \<^verbatim>\<open>_stop_hold\<close> invokes the handles of \<^verbatim>\<open>_cancel_listeners\<close> and leaves the
  list as it is.  In the scenario, after the first day's arm and release the list still
  holds the two handles of that day; after the second day it holds four, and the second
  release has invoked the first day's handles again.
\<close>

theorem cancel_listeners_after_release:
  "cancel_listeners (exec [Fire 0 (calm 4 10 80), Fire 1 (calm 4 10 80)] day_start) = [2, 3]
   \<and> cancel_listeners
       (exec [Fire 0 (calm 4 10 80), Fire 1 (calm 4 10 80),
              Fire 0 (calm 4 10 80), Fire 1 (calm 4 10 80)] day_start) = [2, 3, 4, 5]
   \<and> cancel_calls
       (exec [Fire 0 (calm 4 10 80), Fire 1 (calm 4 10 80),
              Fire 0 (calm 4 10 80), Fire 1 (calm 4 10 80)] day_start) = [2, 3, 2, 3, 4, 5]"
  by (simp add: eval_defs day_start_def)

subsection \<open>Runs of the service\<close>












































end
